theory Spec2Isabelle
  imports Complex_Main "HOL-Library.AList" "HOL-Library.Sublist"
begin

section \<open>JavaScript values\<close>

text \<open>
  The five endpoints (\<^verbatim>\<open>src/api/streaming-edge.js\<close>, the two modules of
  \<^verbatim>\<open>src/api/abacus-websearch.js\<close> and the two modules of \<^verbatim>\<open>src/api/proxy.js\<close>)
  move JSON values around. A number is an IEEE double: the finite ones that a JSON text
  can denote are rationals, an overflowing literal parses to an infinity, and \<open>NaN\<close> arises
  from \<open>Math.max\<close> on a non-numeric operand. \<open>Math.min\<close> and \<open>Math.max\<close> only select one
  of their operands, so no rounding occurs; negative zero is identified with zero (both are
  falsy and both are written as \<open>0\<close>).
\<close>

datatype jsnum = NaN | NegInf | Fin rat | PosInf

datatype json =
    JNull
  | JBool bool
  | JNum jsnum
  | JStr string
  | JArr "json list"
  | JObj "(string \<times> json) list"

text \<open>A thrown value: \<open>error.name\<close> and \<open>error.message\<close>.\<close>

datatype js_error = Err (err_name: string) (err_message: string)

definition TypeError :: "string \<Rightarrow> js_error" where
  "TypeError what = Err ''TypeError'' what"

text \<open>
  What the runtime supplies and the repository does not define: \<open>JSON.parse\<close>,
  \<open>JSON.stringify\<close> to text (used for the in-band error chunk), and the number conversion
  of strings, arrays and objects inside \<open>Math.max\<close>.
\<close>

record platform =
  JSON_parse :: "string \<Rightarrow> js_error + json"
  JSON_stringify :: "json \<Rightarrow> string"
  ToNumber_obj :: "json \<Rightarrow> js_error + jsnum"

text \<open>A value that may be \<open>undefined\<close> is a \<open>json option\<close>; \<open>None\<close> is \<open>undefined\<close>.\<close>

fun truthy :: "json option \<Rightarrow> bool" where
  "truthy None = False"
| "truthy (Some JNull) = False"
| "truthy (Some (JBool b)) = b"
| "truthy (Some (JNum n)) = (n \<noteq> NaN \<and> n \<noteq> Fin 0)"
| "truthy (Some (JStr s)) = (s \<noteq> [])"
| "truthy (Some (JArr xs)) = True"
| "truthy (Some (JObj kvs)) = True"

text \<open>
  \<open>v.k\<close> for a value \<open>v\<close> that is neither \<open>null\<close> nor \<open>undefined\<close> and one of the property
  names the handlers read (\<open>model\<close>, \<open>messages\<close>, \<open>max_tokens\<close>, \<open>query\<close>, ...): only an object
  can have such a property.
\<close>

fun jget :: "json \<Rightarrow> string \<Rightarrow> json option" where
  "jget (JObj kvs) k = map_of kvs k"
| "jget v k = None"

text \<open>\<open>v.k\<close> where \<open>v\<close> may be \<open>null\<close> or \<open>undefined\<close>: reading a property of those throws.\<close>

definition read_prop :: "json option \<Rightarrow> string \<Rightarrow> js_error + json option" where
  "read_prop v k =
     (case v of
        None \<Rightarrow> Inl (TypeError (''Cannot read properties of undefined (reading '' @ k @ '')''))
      | Some JNull \<Rightarrow> Inl (TypeError (''Cannot read properties of null (reading '' @ k @ '')''))
      | Some x \<Rightarrow> Inr (jget x k))"

text \<open>\<open>a || d\<close> with a defined right operand.\<close>

definition or_else :: "json option \<Rightarrow> json \<Rightarrow> json" where
  "or_else a d = (case a of None \<Rightarrow> d | Some x \<Rightarrow> if truthy (Some x) then x else d)"

text \<open>\<open>v[0]\<close> for a value that is neither \<open>null\<close> nor \<open>undefined\<close>.\<close>

fun index0 :: "json \<Rightarrow> json option" where
  "index0 (JArr xs) = (case xs of [] \<Rightarrow> None | x # _ \<Rightarrow> Some x)"
| "index0 (JStr s) = (case s of [] \<Rightarrow> None | c # _ \<Rightarrow> Some (JStr [c]))"
| "index0 (JObj kvs) = map_of kvs ''0''"
| "index0 v = None"

fun num_less :: "jsnum \<Rightarrow> jsnum \<Rightarrow> bool" where
  "num_less (Fin a) (Fin b) = (a < b)"
| "num_less NegInf (Fin b) = True"
| "num_less NegInf PosInf = True"
| "num_less (Fin a) PosInf = True"
| "num_less a b = False"

definition Math_max :: "jsnum \<Rightarrow> jsnum \<Rightarrow> jsnum" where
  "Math_max a b = (if a = NaN \<or> b = NaN then NaN else if num_less a b then b else a)"

definition Math_min :: "jsnum \<Rightarrow> jsnum \<Rightarrow> jsnum" where
  "Math_min a b = (if a = NaN \<or> b = NaN then NaN else if num_less b a then b else a)"

fun ToNumber :: "platform \<Rightarrow> json \<Rightarrow> js_error + jsnum" where
  "ToNumber P JNull = Inr (Fin 0)"
| "ToNumber P (JBool b) = Inr (Fin (if b then 1 else 0))"
| "ToNumber P (JNum n) = Inr n"
| "ToNumber P v = ToNumber_obj P v"

text \<open>
  The value that \<open>JSON.stringify\<close> puts on the wire for an in-memory value: a number that
  is not finite is written as \<open>null\<close>.
\<close>

fun wire :: "json \<Rightarrow> json" where
  "wire (JNum n) = (if n = NaN \<or> n = PosInf \<or> n = NegInf then JNull else JNum n)"
| "wire (JArr xs) = JArr (map wire xs)"
| "wire (JObj kvs) = JObj (map (\<lambda>kv. (fst kv, wire (snd kv))) kvs)"
| "wire v = v"

text \<open>\<open>String.prototype.includes\<close>.\<close>

fun includes_str :: "string \<Rightarrow> string \<Rightarrow> bool" where
  "includes_str [] t = (t = [])"
| "includes_str (c # s) t = (prefix t (c # s) \<or> includes_str s t)"

text \<open>Decimal digits of a non-negative integer, as a template literal prints it.\<close>

fun show_nat :: "nat \<Rightarrow> string" where
  "show_nat n =
     (if n < 10 then [''0123456789'' ! n]
      else show_nat (n div 10) @ [''0123456789'' ! (n mod 10)])"

declare show_nat.simps [simp del]

section \<open>Requests, responses and the upstream\<close>

type_synonym header = "string \<times> string"

text \<open>A relayed stream: the chunks written to the client so far and how often it was closed.\<close>

record channel =
  written :: "string list"
  closes :: nat

datatype body = NoBody | JsonBody json | StreamBody channel

record response =
  status :: nat
  headers :: "header list"
  content :: body

text \<open>\<open>res.setHeader\<close> replaces an earlier value of the same header.\<close>

definition setHeaders :: "header list \<Rightarrow> header list" where
  "setHeaders hs = fold (\<lambda>kv h. AList.update (fst kv) (snd kv) h) hs []"

definition json_reply :: "nat \<Rightarrow> header list \<Rightarrow> json \<Rightarrow> response" where
  "json_reply st hs b = \<lparr>status = st, headers = setHeaders hs, content = JsonBody (wire b)\<rparr>"

text \<open>What the body of an upstream response delivers, in order.\<close>

datatype stream_event = Chunk string | End | Fail js_error

record upstream_response =
  up_status :: nat
  up_statusText :: string
  up_text :: "js_error + string"
  up_json :: "js_error + json"
  up_body :: "stream_event list option"

definition ok :: "upstream_response \<Rightarrow> bool" where
  "ok r = (200 \<le> up_status r \<and> up_status r \<le> 299)"

text \<open>The upstream: when \<open>fetch\<close> would settle (in milliseconds) and with what.\<close>

record upstream =
  latency :: nat
  settles :: "js_error + upstream_response"

text \<open>An outbound call: \<open>fetch(url, {method: 'POST', headers, body})\<close>; the body is the JSON
  value whose text is sent.\<close>

record outbound =
  call_url :: string
  call_headers :: "header list"
  call_body :: json

record result =
  resp :: response
  calls :: "outbound list"

text \<open>
  \<open>process.env.K\<close>: an unset variable is \<open>undefined\<close> and an empty one is \<open>''\<close>; both
  are falsy and a handler uses the value only after it has found it truthy, so both read as
  the empty string here.
\<close>

definition getenv :: "(string \<Rightarrow> string option) \<Rightarrow> string \<Rightarrow> string" where
  "getenv env k = (case env k of None \<Rightarrow> [] | Some v \<Rightarrow> v)"

definition cors :: "response \<Rightarrow> bool" where
  "cors r = (map_of (headers r) ''Access-Control-Allow-Origin'' = Some ''*'')"

section \<open>Parameter validation shared by the chat endpoints\<close>

text \<open>
  \<^verbatim>\<open>const originalMaxTokens = requestBody.max_tokens || 4096;\<close>
  \<^verbatim>\<open>const validatedMaxTokens = Math.min(Math.max(1, originalMaxTokens), 8192);\<close>
\<close>

definition originalMaxTokens :: "json \<Rightarrow> json" where
  "originalMaxTokens requestBody = or_else (jget requestBody ''max_tokens'') (JNum (Fin 4096))"

definition validatedMaxTokens :: "platform \<Rightarrow> json \<Rightarrow> js_error + jsnum" where
  "validatedMaxTokens P requestBody =
     (case ToNumber P (originalMaxTokens requestBody) of
        Inl e \<Rightarrow> Inl e
      | Inr n \<Rightarrow> Inr (Math_min (Math_max (Fin 1) n) (Fin 8192)))"

section \<open>The streaming endpoint (\<^verbatim>\<open>streaming-edge.js\<close>)\<close>

record edge_request =
  request_method :: string
  json_result :: "js_error + json"

definition writer_write :: "string \<Rightarrow> channel \<Rightarrow> channel" where
  "writer_write v w = w\<lparr>written := written w @ [v]\<rparr>"

definition writer_close :: "channel \<Rightarrow> channel" where
  "writer_close w = w\<lparr>closes := Suc (closes w)\<rparr>"

definition new_channel :: channel where
  "new_channel = \<lparr>written = [], closes = 0\<rparr>"

definition done_chunk :: string where
  "done_chunk = ''data: [DONE]'' @ [CHR 0x0A, CHR 0x0A]"

definition error_chunk :: "platform \<Rightarrow> js_error \<Rightarrow> string" where
  "error_chunk P error =
     ''data: '' @ JSON_stringify P (JObj [(''error'', JBool True), (''message'', JStr (err_message error))])
       @ [CHR 0x0A, CHR 0x0A]"

text \<open>
  \<open>pump\<close>: one \<open>reader.read()\<close> per event. A chunk is written as it is, the end of the
  upstream body writes the sentinel and closes, a failed read writes the error chunk and the
  sentinel and closes. When the events run out before the body has ended, the read is still
  pending and nothing more has been written.
\<close>

fun pump :: "platform \<Rightarrow> stream_event list \<Rightarrow> channel \<Rightarrow> channel" where
  "pump P [] w = w"
| "pump P (Chunk v # evs) w = pump P evs (writer_write v w)"
| "pump P (End # evs) w = writer_close (writer_write done_chunk w)"
| "pump P (Fail error # evs) w = writer_close (writer_write done_chunk (writer_write (error_chunk P error) w))"

text \<open>
  \<open>new Response(body, {status, headers})\<close> with a body: the constructor throws for a status
  outside 200..599 and for a status that admits no body.
\<close>

definition new_Response :: "body \<Rightarrow> nat \<Rightarrow> header list \<Rightarrow> js_error + response" where
  "new_Response b st hs =
     (if st < 200 \<or> 599 < st then Inl (Err ''RangeError'' ''The status provided is outside the range [200, 599].'')
      else if b \<noteq> NoBody \<and> st \<in> {204, 205, 304}
        then Inl (TypeError ''Response with null body status cannot have body'')
      else Inr \<lparr>status = st, headers = hs, content = b\<rparr>)"

text \<open>The object literal \<open>cleanedParams\<close> and the loop that deletes its \<open>undefined\<close> and
  \<open>null\<close> entries.\<close>

definition remove_undefined_or_null :: "(string \<times> json option) list \<Rightarrow> (string \<times> json) list" where
  "remove_undefined_or_null kvs =
     concat (map (\<lambda>kv. case snd kv of None \<Rightarrow> [] | Some JNull \<Rightarrow> [] | Some v \<Rightarrow> [(fst kv, v)]) kvs)"

definition cleanedParams :: "json \<Rightarrow> jsnum \<Rightarrow> (string \<times> json) list" where
  "cleanedParams requestBody validated =
     remove_undefined_or_null
       [(''model'', jget requestBody ''model''),
        (''messages'', jget requestBody ''messages''),
        (''max_tokens'', Some (JNum validated)),
        (''temperature'', jget requestBody ''temperature''),
        (''top_p'', jget requestBody ''top_p''),
        (''stream'', Some (JBool True))]"

definition apiRequest :: "string \<Rightarrow> json \<Rightarrow> jsnum \<Rightarrow> outbound" where
  "apiRequest apiKey requestBody validated =
     \<lparr>call_url = ''https://api.fireworks.ai/inference/v1/chat/completions'',
      call_headers = [(''Content-Type'', ''application/json''), (''Authorization'', ''Bearer '' @ apiKey)],
      call_body = wire (JObj (cleanedParams requestBody validated))\<rparr>"

text \<open>After \<open>fetch\<close> has resolved: the error reply, or the relay.\<close>

definition relay :: "platform \<Rightarrow> upstream_response \<Rightarrow> js_error + response" where
  "relay P apiResponse =
     (if \<not> ok apiResponse then
        (let fallback = ''API Error: '' @ show_nat (up_status apiResponse);
             errorMessage = (case up_text apiResponse of
                               Inl e \<Rightarrow> fallback
                             | Inr errorText \<Rightarrow> if errorText \<noteq> [] then errorText else fallback)
         in new_Response
              (JsonBody (wire (JObj [(''error'', JBool True), (''message'', JStr errorMessage)])))
              (up_status apiResponse)
              [(''Content-Type'', ''application/json''), (''Access-Control-Allow-Origin'', ''*'')])
      else
        (case up_body apiResponse of
           None \<Rightarrow> Inl (TypeError ''Cannot read properties of null (reading getReader)'')
         | Some evs \<Rightarrow>
             Inr \<lparr>status = 200,
                  headers = [(''Content-Type'', ''text/event-stream''), (''Cache-Control'', ''no-cache''),
                             (''Connection'', ''keep-alive''), (''Access-Control-Allow-Origin'', ''*'')],
                  content = StreamBody (pump P evs new_channel)\<rparr>))"

text \<open>
  The body of the \<open>try\<close> block. The module is an ES module, hence strict: for a body that is
  a number, a string or a boolean, \<open>requestBody.stream\<close> is \<open>undefined\<close> and the assignment
  \<open>requestBody.stream = true\<close> throws. The assignment has no other effect, since
  \<open>cleanedParams\<close> takes the literal \<open>true\<close>.
\<close>

definition handler_try ::
  "platform \<Rightarrow> (string \<Rightarrow> string option) \<Rightarrow> edge_request \<Rightarrow> (js_error + upstream_response)
     \<Rightarrow> (js_error + response) \<times> outbound list" where
  "handler_try P env request apiResult =
     (let apiKey = getenv env ''FIREWORKS_API_KEY'' in
      if apiKey = [] then
        (Inr (json_reply 500 [(''Content-Type'', ''application/json''), (''Access-Control-Allow-Origin'', ''*'')]
               (JObj [(''error'', JStr ''API key not configured''),
                      (''message'', JStr ''Please set FIREWORKS_API_KEY in your Vercel environment variables'')])), [])
      else
        (case json_result request of
           Inl parseError \<Rightarrow>
             (Inr (json_reply 400 [(''Content-Type'', ''application/json''), (''Access-Control-Allow-Origin'', ''*'')]
                    (JObj [(''error'', JStr ''Invalid JSON in request body''),
                           (''message'', JStr (err_message parseError))])), [])
         | Inr requestBody \<Rightarrow>
             (case read_prop (Some requestBody) ''model'' of
                Inl e \<Rightarrow> (Inl e, [])
              | Inr modelName \<Rightarrow>
                  (case requestBody of
                     JBool b \<Rightarrow> (Inl (TypeError ''Cannot create property stream on boolean''), [])
                   | JNum n \<Rightarrow> (Inl (TypeError ''Cannot create property stream on number''), [])
                   | JStr s \<Rightarrow> (Inl (TypeError ''Cannot create property stream on string''), [])
                   | _ \<Rightarrow>
                       (case validatedMaxTokens P requestBody of
                          Inl e \<Rightarrow> (Inl e, [])
                        | Inr validated \<Rightarrow>
                            (case apiResult of
                               Inl e \<Rightarrow> (Inl e, [apiRequest apiKey requestBody validated])
                             | Inr apiResponse \<Rightarrow>
                                 (relay P apiResponse, [apiRequest apiKey requestBody validated])))))))"

text \<open>The outermost \<open>catch (error)\<close>.\<close>

definition handler_catch :: "js_error \<Rightarrow> response" where
  "handler_catch error =
     json_reply 500 [(''Content-Type'', ''application/json''), (''Access-Control-Allow-Origin'', ''*'')]
       (JObj [(''error'', JStr (if err_message error \<noteq> [] then err_message error else ''Unknown error'')),
              (''details'', JObj [(''name'', JStr (err_name error)), (''message'', JStr (err_message error))])])"

definition handler ::
  "platform \<Rightarrow> (string \<Rightarrow> string option) \<Rightarrow> edge_request \<Rightarrow> (js_error + upstream_response) \<Rightarrow> result" where
  "handler P env request apiResult =
     (if request_method request = ''OPTIONS'' then
        \<lparr>resp = \<lparr>status = 204,
                 headers = [(''Access-Control-Allow-Origin'', ''*''),
                            (''Access-Control-Allow-Methods'', ''GET, POST, OPTIONS''),
                            (''Access-Control-Allow-Headers'', ''Content-Type, Authorization''),
                            (''Access-Control-Max-Age'', ''86400'')],
                 content = NoBody\<rparr>,
         calls = []\<rparr>
      else if request_method request \<noteq> ''POST'' then
        \<lparr>resp = json_reply 405 [(''Content-Type'', ''application/json''), (''Access-Control-Allow-Origin'', ''*''),
                                (''Allow'', ''POST'')]
                  (JObj [(''error'', JStr ''Method Not Allowed'')]),
         calls = []\<rparr>
      else
        (case handler_try P env request apiResult of
           (Inr r, cs) \<Rightarrow> \<lparr>resp = r, calls = cs\<rparr>
         | (Inl error, cs) \<Rightarrow> \<lparr>resp = handler_catch error, calls = cs\<rparr>))"

section \<open>The Node endpoints\<close>

text \<open>
  \<open>req.method\<close> and \<open>req.body\<close>; the body is \<open>undefined\<close> (\<open>None\<close>), a string still to be
  parsed, or a value that the host has parsed already.
\<close>

record node_request =
  req_method :: string
  req_body :: "json option"

text \<open>\<^verbatim>\<open>requestBody = typeof req.body === 'string' ? JSON.parse(req.body) : req.body;\<close>\<close>

definition parse_body :: "platform \<Rightarrow> node_request \<Rightarrow> js_error + json option" where
  "parse_body P req =
     (case req_body req of
        Some (JStr s) \<Rightarrow> (case JSON_parse P s of Inl e \<Rightarrow> Inl e | Inr v \<Rightarrow> Inr (Some v))
      | v \<Rightarrow> Inr v)"

text \<open>The value itself when a property of it can be read, the \<open>TypeError\<close> otherwise.\<close>

definition deref :: "json option \<Rightarrow> string \<Rightarrow> js_error + json" where
  "deref v k =
     (case v of
        None \<Rightarrow> Inl (TypeError (''Cannot read properties of undefined (reading '' @ k @ '')''))
      | Some JNull \<Rightarrow> Inl (TypeError (''Cannot read properties of null (reading '' @ k @ '')''))
      | Some x \<Rightarrow> Inr x)"

text \<open>
  \<open>fetch\<close> with the abort signal of a timer of \<open>ms\<close> milliseconds: the timer fires when the
  call has not settled by then, and the call rejects with an \<open>AbortError\<close>. The timer is
  cleared as soon as \<open>fetch\<close> has resolved.
\<close>

definition fetch :: "nat \<Rightarrow> upstream \<Rightarrow> js_error + upstream_response" where
  "fetch ms up =
     (if ms < latency up then Inl (Err ''AbortError'' ''The user aborted a request.'') else settles up)"

text \<open>
  \<open>response.body.pipe(res)\<close>: every chunk is written as it is, the end of the upstream body
  ends the response, and a failing upstream body is only logged (``Can't write headers/body
  after pipe has started'').
\<close>

fun pipe :: "stream_event list \<Rightarrow> channel \<Rightarrow> channel" where
  "pipe [] w = w"
| "pipe (Chunk v # evs) w = pipe evs (writer_write v w)"
| "pipe (End # evs) w = writer_close w"
| "pipe (Fail streamError # evs) w = w"

text \<open>The own enumerable properties that an object spread \<open>{...v}\<close> copies.\<close>

fun own_props :: "json \<Rightarrow> (string \<times> json) list" where
  "own_props (JObj kvs) = kvs"
| "own_props (JArr xs) = zip (map show_nat [0..<length xs]) xs"
| "own_props (JStr s) = zip (map show_nat [0..<length s]) (map (\<lambda>c. JStr [c]) s)"
| "own_props v = []"

text \<open>
  The detection of the reasoning method from the first message. \<open>includes\<close> exists on
  strings and on arrays; on any other truthy value the call throws.
\<close>

definition reasoningMethod :: "json \<Rightarrow> js_error + string" where
  "reasoningMethod requestBody =
     (case jget requestBody ''messages'' of
        None \<Rightarrow> Inr ''Standard''
      | Some messages \<Rightarrow>
          if \<not> truthy (Some messages) then Inr ''Standard''
          else if \<not> truthy (index0 messages) then Inr ''Standard''
          else
            (case index0 messages of
               None \<Rightarrow> Inr ''Standard''
             | Some m \<Rightarrow>
                 if \<not> truthy (jget m ''content'') then Inr ''Standard''
                 else
                   (case jget m ''content'' of
                      Some (JStr systemPrompt) \<Rightarrow>
                        Inr (if includes_str systemPrompt ''Chain of Draft'' then ''CoD''
                             else if includes_str systemPrompt ''Chain of Thought'' then ''CoT''
                             else ''Standard'')
                    | Some (JArr systemPrompt) \<Rightarrow>
                        Inr (if JStr ''Chain of Draft'' \<in> set systemPrompt then ''CoD''
                             else if JStr ''Chain of Thought'' \<in> set systemPrompt then ''CoT''
                             else ''Standard'')
                    | _ \<Rightarrow> Inl (TypeError ''systemPrompt.includes is not a function''))))"

text \<open>
  \<^verbatim>\<open>if (data && !data.error) { data.performance = {...}; }\<close> as \<open>res.json(data)\<close> then
  writes it: the property shows on an object only (on an array it is not serialised, on a
  primitive the assignment is dropped).
\<close>

definition with_performance :: "json \<Rightarrow> (string \<times> json) list \<Rightarrow> json" where
  "with_performance data performance =
     (if truthy (Some data) \<and> \<not> truthy (jget data ''error'') then
        (case data of
           JObj kvs \<Rightarrow> JObj (AList.update ''performance'' (JObj performance) kvs)
         | _ \<Rightarrow> data)
      else data)"

text \<open>The readings of \<open>Date.now()\<close> during one invocation.\<close>

record clock =
  now_thread :: nat
  now_start :: nat
  now_end :: nat

definition responseTime :: "clock \<Rightarrow> json" where
  "responseTime t = JNum (Fin (of_int (int (now_end t) - int (now_start t))))"

definition options_reply :: response where
  "options_reply =
     \<lparr>status = 204,
      headers = setHeaders [(''Access-Control-Allow-Origin'', ''*''),
                            (''Access-Control-Allow-Methods'', ''GET, POST, OPTIONS''),
                            (''Access-Control-Allow-Headers'', ''Content-Type, Authorization''),
                            (''Access-Control-Max-Age'', ''86400'')],
      content = NoBody\<rparr>"

definition method_not_allowed :: response where
  "method_not_allowed =
     json_reply 405 [(''Content-Type'', ''application/json''), (''Access-Control-Allow-Origin'', ''*''),
                     (''Allow'', ''POST'')]
       (JObj [(''error'', JStr ''Method Not Allowed'')])"

definition internal_error :: "js_error \<Rightarrow> response" where
  "internal_error error =
     json_reply 500 [(''Content-Type'', ''application/json''), (''Access-Control-Allow-Origin'', ''*'')]
       (JObj [(''error'', JStr ''Internal Server Error''), (''message'', JStr (err_message error))])"

definition invalid_json :: "js_error \<Rightarrow> response" where
  "invalid_json parseError =
     json_reply 400 [(''Content-Type'', ''application/json''), (''Access-Control-Allow-Origin'', ''*'')]
       (JObj [(''error'', JStr ''Invalid JSON in request body''), (''message'', JStr (err_message parseError))])"

definition missing_query :: response where
  "missing_query =
     json_reply 400 [(''Content-Type'', ''application/json''), (''Access-Control-Allow-Origin'', ''*'')]
       (JObj [(''error'', JStr ''Missing required parameter: query'')])"

text \<open>The \<open>catch (fetchError)\<close> blocks: a timeout reply for an \<open>AbortError\<close>, else a 500.\<close>

definition catch_fetchError :: "string \<Rightarrow> js_error \<Rightarrow> response" where
  "catch_fetchError timeout_message fetchError =
     (if err_name fetchError = ''AbortError'' then
        json_reply 504 [(''Content-Type'', ''application/json''), (''Access-Control-Allow-Origin'', ''*'')]
          (JObj [(''error'', JStr ''Gateway Timeout''), (''message'', JStr timeout_message)])
      else
        json_reply 500 [(''Content-Type'', ''application/json''), (''Access-Control-Allow-Origin'', ''*'')]
          (JObj [(''error'', JStr ''Request Failed''), (''message'', JStr (err_message fetchError))]))"

definition upstream_error :: "string \<Rightarrow> upstream_response \<Rightarrow> string \<Rightarrow> response" where
  "upstream_error label response details =
     json_reply (up_status response)
       [(''Content-Type'', ''application/json''), (''Access-Control-Allow-Origin'', ''*'')]
       (JObj [(''error'', JStr (label @ up_statusText response)), (''details'', JStr details)])"

subsection \<open>The web search agent (\<^verbatim>\<open>abacus-websearch.js\<close>, first module)\<close>

definition websearch_timeout_message :: string where
  "websearch_timeout_message =
     ''The web search request took too long to complete (>30 seconds). Try a more specific search query.''"

definition websearch_payload :: "string \<Rightarrow> string \<Rightarrow> string \<Rightarrow> outbound" where
  "websearch_payload DEPLOYMENT_TOKEN DEPLOYMENT_ID query =
     \<lparr>call_url = ''https://api.abacus.ai/api/v0/deployment/predict'',
      call_headers = [(''Content-Type'', ''application/json''),
                      (''Authorization'', ''Bearer '' @ DEPLOYMENT_TOKEN)],
      call_body = wire (JObj [(''deploymentId'', JStr DEPLOYMENT_ID),
                              (''input'', JObj [(''query'', JStr query)])])\<rparr>"

definition websearch_respond :: "upstream_response \<Rightarrow> js_error + response" where
  "websearch_respond response =
     (if \<not> ok response then
        (case up_text response of
           Inl e \<Rightarrow> Inl e
         | Inr errorText \<Rightarrow> Inr (upstream_error ''Abacus.AI API Error: '' response errorText))
      else
        (case up_json response of
           Inl e \<Rightarrow> Inl e
         | Inr data \<Rightarrow>
             (case read_prop (Some data) ''output'' of
                Inl e \<Rightarrow> Inl e
              | Inr output \<Rightarrow>
                  (let search_output = (case output of
                                          None \<Rightarrow> None
                                        | Some JNull \<Rightarrow> None
                                        | Some v \<Rightarrow> jget v ''search_output'');
                       searchResults = or_else search_output (JStr ''No search results found.'')
                   in Inr (json_reply 200
                            [(''Content-Type'', ''application/json''), (''Access-Control-Allow-Origin'', ''*''),
                             (''Cache-Control'', ''no-cache, no-store, must-revalidate'')]
                            (JObj [(''search_results'', searchResults), (''success'', JBool True)]))))))"

definition websearch_try ::
  "platform \<Rightarrow> (string \<Rightarrow> string option) \<Rightarrow> node_request \<Rightarrow> upstream
     \<Rightarrow> (js_error + response) \<times> outbound list" where
  "websearch_try P env req up =
     (let DEPLOYMENT_TOKEN = getenv env ''ABACUS_WEBSEARCH_TOKEN'';
          DEPLOYMENT_ID = getenv env ''ABACUS_WEBSEARCH_ID'' in
      if DEPLOYMENT_TOKEN = [] \<or> DEPLOYMENT_ID = [] then
        (Inr (json_reply 500 [(''Content-Type'', ''application/json''), (''Access-Control-Allow-Origin'', ''*'')]
               (JObj [(''error'', JStr ''Abacus.AI Web Search credentials not configured''),
                      (''message'', JStr ''Please set ABACUS_WEBSEARCH_TOKEN and ABACUS_WEBSEARCH_ID in your Vercel environment variables'')])), [])
      else
        (case parse_body P req of
           Inl parseError \<Rightarrow> (Inr (invalid_json parseError), [])
         | Inr requestBody \<Rightarrow>
             (case read_prop requestBody ''query'' of
                Inl e \<Rightarrow> (Inl e, [])
              | Inr query \<Rightarrow>
                  if \<not> truthy query then (Inr missing_query, [])
                  else
                    (case query of
                       Some (JStr q) \<Rightarrow>
                         (case fetch 30000 up of
                            Inl fetchError \<Rightarrow>
                              (Inr (catch_fetchError websearch_timeout_message fetchError),
                               [websearch_payload DEPLOYMENT_TOKEN DEPLOYMENT_ID q])
                          | Inr response \<Rightarrow>
                              (case websearch_respond response of
                                 Inl fetchError \<Rightarrow>
                                   (Inr (catch_fetchError websearch_timeout_message fetchError),
                                    [websearch_payload DEPLOYMENT_TOKEN DEPLOYMENT_ID q])
                               | Inr r \<Rightarrow> (Inr r, [websearch_payload DEPLOYMENT_TOKEN DEPLOYMENT_ID q])))
                     | _ \<Rightarrow> (Inl (TypeError ''query.substring is not a function''), [])))))"

text \<open>The method gate and the outermost \<open>catch\<close>, common to the four Node modules.\<close>

definition node_gate ::
  "node_request \<Rightarrow> response \<Rightarrow> (js_error + response) \<times> outbound list \<Rightarrow> result" where
  "node_gate req preflight attempt =
     (if req_method req = ''OPTIONS'' then \<lparr>resp = preflight, calls = []\<rparr>
      else if req_method req \<noteq> ''POST'' then \<lparr>resp = method_not_allowed, calls = []\<rparr>
      else
        (case attempt of
           (Inr r, cs) \<Rightarrow> \<lparr>resp = r, calls = cs\<rparr>
         | (Inl error, cs) \<Rightarrow> \<lparr>resp = internal_error error, calls = cs\<rparr>))"

definition websearch_handler ::
  "platform \<Rightarrow> (string \<Rightarrow> string option) \<Rightarrow> node_request \<Rightarrow> upstream \<Rightarrow> result" where
  "websearch_handler P env req up = node_gate req options_reply (websearch_try P env req up)"

subsection \<open>The research agent (\<^verbatim>\<open>proxy.js\<close>, second module)\<close>

definition research_timeout_message :: string where
  "research_timeout_message =
     ''The research agent request took too long to complete (>3 minutes). Try a more specific research query.''"

definition research_payload :: "string \<Rightarrow> string \<Rightarrow> string \<Rightarrow> json \<Rightarrow> outbound" where
  "research_payload DEPLOYMENT_TOKEN DEPLOYMENT_ID query email =
     (let keywordArgs = [(''subject'', JStr query)] @ (if truthy (Some email) then [(''email'', email)] else [])
      in \<lparr>call_url = ''https://api.abacus.ai/api/agents/execute'',
          call_headers = [(''Content-Type'', ''application/json'')],
          call_body = wire (JObj [(''deployment_token'', JStr DEPLOYMENT_TOKEN),
                                  (''deployment_id'', JStr DEPLOYMENT_ID),
                                  (''keyword_arguments'', JObj keywordArgs)])\<rparr>)"

definition research_respond :: "upstream_response \<Rightarrow> js_error + response" where
  "research_respond response =
     (if \<not> ok response then
        (case up_text response of
           Inl e \<Rightarrow> Inl e
         | Inr errorText \<Rightarrow> Inr (upstream_error ''Abacus.AI API Error: '' response errorText))
      else
        (case up_json response of
           Inl e \<Rightarrow> Inl e
         | Inr data \<Rightarrow>
             (case read_prop (Some data) ''research_papers'' of
                Inl e \<Rightarrow> Inl e
              | Inr research_papers \<Rightarrow>
                  Inr (json_reply 200
                        [(''Content-Type'', ''application/json''), (''Access-Control-Allow-Origin'', ''*''),
                         (''Cache-Control'', ''no-cache, no-store, must-revalidate'')]
                        (JObj [(''research_papers'', or_else research_papers (JStr ''No research papers found.'')),
                               (''success'', JBool True)])))))"

definition research_try ::
  "platform \<Rightarrow> (string \<Rightarrow> string option) \<Rightarrow> node_request \<Rightarrow> upstream
     \<Rightarrow> (js_error + response) \<times> outbound list" where
  "research_try P env req up =
     (let DEPLOYMENT_TOKEN = getenv env ''ABACUS_DEPLOYMENT_TOKEN'';
          DEPLOYMENT_ID = getenv env ''ABACUS_DEPLOYMENT_ID'' in
      if DEPLOYMENT_TOKEN = [] \<or> DEPLOYMENT_ID = [] then
        (Inr (json_reply 500 [(''Content-Type'', ''application/json''), (''Access-Control-Allow-Origin'', ''*'')]
               (JObj [(''error'', JStr ''Abacus.AI credentials not configured''),
                      (''message'', JStr ''Please set ABACUS_DEPLOYMENT_TOKEN and ABACUS_DEPLOYMENT_ID in your Vercel environment variables'')])), [])
      else
        (case parse_body P req of
           Inl parseError \<Rightarrow> (Inr (invalid_json parseError), [])
         | Inr requestBody \<Rightarrow>
             (case deref requestBody ''query'' of
                Inl e \<Rightarrow> (Inl e, [])
              | Inr rb \<Rightarrow>
                  if \<not> truthy (jget rb ''query'') then (Inr missing_query, [])
                  else
                    (case jget rb ''query'' of
                       Some (JStr q) \<Rightarrow>
                         (let call = research_payload DEPLOYMENT_TOKEN DEPLOYMENT_ID q
                                       (or_else (jget rb ''email'') JNull) in
                          case fetch 180000 up of
                            Inl fetchError \<Rightarrow>
                              (Inr (catch_fetchError research_timeout_message fetchError), [call])
                          | Inr response \<Rightarrow>
                              (case research_respond response of
                                 Inl fetchError \<Rightarrow>
                                   (Inr (catch_fetchError research_timeout_message fetchError), [call])
                               | Inr r \<Rightarrow> (Inr r, [call])))
                     | _ \<Rightarrow> (Inl (TypeError ''query.substring is not a function''), [])))))"

definition research_handler ::
  "platform \<Rightarrow> (string \<Rightarrow> string option) \<Rightarrow> node_request \<Rightarrow> upstream \<Rightarrow> result" where
  "research_handler P env req up = node_gate req options_reply (research_try P env req up)"

subsection \<open>The chat proxy with thread ids (\<^verbatim>\<open>proxy.js\<close>, first module)\<close>

definition llm_timeout_message :: string where
  "llm_timeout_message =
     ''The request to the LLM API took too long to complete (>120 seconds). Try reducing complexity or using fewer tokens.''"

text \<open>
  \<^verbatim>\<open>const threadId = requestBody.threadId || requestBody.user || `thread-${Date.now()}`;\<close>
\<close>

definition threadId :: "clock \<Rightarrow> json \<Rightarrow> json" where
  "threadId t requestBody =
     or_else (jget requestBody ''threadId'')
       (or_else (jget requestBody ''user'') (JStr (''thread-'' @ show_nat (now_thread t))))"

text \<open>\<^verbatim>\<open>{ ...requestBody, max_tokens: validatedMaxTokens, user: threadId }\<close>\<close>

definition modifiedRequestBody :: "json \<Rightarrow> jsnum \<Rightarrow> json \<Rightarrow> json" where
  "modifiedRequestBody requestBody validated thread =
     JObj (AList.update ''user'' thread
            (AList.update ''max_tokens'' (JNum validated) (own_props requestBody)))"

definition thread_proxy_call :: "string \<Rightarrow> json \<Rightarrow> jsnum \<Rightarrow> json \<Rightarrow> outbound" where
  "thread_proxy_call API_KEY requestBody validated thread =
     \<lparr>call_url = ''https://api.fireworks.ai/inference/v1/chat/completions'',
      call_headers = [(''Content-Type'', ''application/json''), (''Authorization'', ''Bearer '' @ API_KEY)],
      call_body = wire (modifiedRequestBody requestBody validated thread)\<rparr>"

definition thread_proxy_respond ::
  "clock \<Rightarrow> string \<Rightarrow> json \<Rightarrow> upstream_response \<Rightarrow> js_error + response" where
  "thread_proxy_respond t reasoning thread response =
     (if \<not> ok response then
        (case up_text response of
           Inl e \<Rightarrow> Inl e
         | Inr errorText \<Rightarrow> Inr (upstream_error ''API Error: '' response errorText))
      else
        (case up_json response of
           Inl e \<Rightarrow> Inl e
         | Inr data \<Rightarrow>
             (case read_prop (Some data) ''usage'' of
                Inl e \<Rightarrow> Inl e
              | Inr usage \<Rightarrow>
                  Inr (json_reply 200
                        [(''Content-Type'', ''application/json''), (''Access-Control-Allow-Origin'', ''*''),
                         (''Cache-Control'', ''no-cache, no-store, must-revalidate'')]
                        (with_performance data
                           [(''response_time_ms'', responseTime t),
                            (''reasoning_method'', JStr reasoning),
                            (''thread_id'', thread)])))))"

text \<open>The inner \<open>try\<close> block with its \<open>catch (fetchError)\<close>: it always answers.\<close>

definition thread_proxy_fetch ::
  "platform \<Rightarrow> clock \<Rightarrow> string \<Rightarrow> json \<Rightarrow> string \<Rightarrow> upstream \<Rightarrow> response \<times> outbound list" where
  "thread_proxy_fetch P t API_KEY requestBody reasoning up =
     (case validatedMaxTokens P requestBody of
        Inl fetchError \<Rightarrow> (catch_fetchError llm_timeout_message fetchError, [])
      | Inr validated \<Rightarrow>
          (let call = thread_proxy_call API_KEY requestBody validated (threadId t requestBody) in
           case fetch 120000 up of
             Inl fetchError \<Rightarrow> (catch_fetchError llm_timeout_message fetchError, [call])
           | Inr response \<Rightarrow>
               (case thread_proxy_respond t reasoning (threadId t requestBody) response of
                  Inl fetchError \<Rightarrow> (catch_fetchError llm_timeout_message fetchError, [call])
                | Inr r \<Rightarrow> (r, [call]))))"

text \<open>The middle \<open>try\<close> block; its \<open>catch (parseError)\<close> answers 400.\<close>

definition thread_proxy_parse ::
  "platform \<Rightarrow> clock \<Rightarrow> string \<Rightarrow> node_request \<Rightarrow> upstream \<Rightarrow> js_error + response \<times> outbound list" where
  "thread_proxy_parse P t API_KEY req up =
     (case parse_body P req of
        Inl parseError \<Rightarrow> Inl parseError
      | Inr body \<Rightarrow>
          (case deref body ''model'' of
             Inl parseError \<Rightarrow> Inl parseError
           | Inr requestBody \<Rightarrow>
               (case reasoningMethod requestBody of
                  Inl parseError \<Rightarrow> Inl parseError
                | Inr reasoning \<Rightarrow> Inr (thread_proxy_fetch P t API_KEY requestBody reasoning up))))"

definition thread_proxy_try ::
  "platform \<Rightarrow> clock \<Rightarrow> (string \<Rightarrow> string option) \<Rightarrow> node_request \<Rightarrow> upstream
     \<Rightarrow> (js_error + response) \<times> outbound list" where
  "thread_proxy_try P t env req up =
     (let API_KEY = getenv env ''FIREWORKS_API_KEY'' in
      if API_KEY = [] then
        (Inr (json_reply 500 [(''Content-Type'', ''application/json''), (''Access-Control-Allow-Origin'', ''*'')]
               (JObj [(''error'', JStr ''API key not configured on server'')])), [])
      else
        (case thread_proxy_parse P t API_KEY req up of
           Inl parseError \<Rightarrow>
             (Inr (json_reply 400 [(''Content-Type'', ''application/json''), (''Access-Control-Allow-Origin'', ''*'')]
                    (JObj [(''error'', JStr ''Bad Request''),
                           (''message'', JStr (''Error processing request: '' @ err_message parseError))])), [])
         | Inr (r, cs) \<Rightarrow> (Inr r, cs)))"

definition thread_proxy_options :: response where
  "thread_proxy_options =
     \<lparr>status = 204,
      headers = setHeaders [(''Access-Control-Allow-Origin'', ''*''),
                            (''Access-Control-Allow-Headers'', ''Content-Type, Authorization''),
                            (''Access-Control-Allow-Methods'', ''POST, OPTIONS'')],
      content = NoBody\<rparr>"

definition thread_proxy_handler ::
  "platform \<Rightarrow> clock \<Rightarrow> (string \<Rightarrow> string option) \<Rightarrow> node_request \<Rightarrow> upstream \<Rightarrow> result" where
  "thread_proxy_handler P t env req up =
     node_gate req thread_proxy_options (thread_proxy_try P t env req up)"

subsection \<open>The chat proxy with optional streaming (\<^verbatim>\<open>abacus-websearch.js\<close>, second module)\<close>

definition stream_proxy_call :: "string \<Rightarrow> json \<Rightarrow> jsnum \<Rightarrow> outbound" where
  "stream_proxy_call apiKey requestBody validated =
     \<lparr>call_url = ''https://api.fireworks.ai/inference/v1/chat/completions'',
      call_headers = [(''Content-Type'', ''application/json''), (''Authorization'', ''Bearer '' @ apiKey)],
      call_body = wire (JObj (AList.update ''max_tokens'' (JNum validated) (own_props requestBody)))\<rparr>"

definition stream_proxy_respond ::
  "clock \<Rightarrow> bool \<Rightarrow> string \<Rightarrow> upstream_response \<Rightarrow> js_error + response" where
  "stream_proxy_respond t isStreaming reasoning response =
     (if \<not> ok response then
        (let errorDetails = (case up_text response of
                               Inl e \<Rightarrow> ''Status code: '' @ show_nat (up_status response)
                             | Inr errorText \<Rightarrow> errorText)
         in Inr (upstream_error ''API Error: '' response errorDetails))
      else if isStreaming then
        (case up_body response of
           None \<Rightarrow> Inl (TypeError ''Cannot read properties of null (reading pipe)'')
         | Some evs \<Rightarrow>
             Inr \<lparr>status = 200,
                  headers = setHeaders [(''Content-Type'', ''text/event-stream''), (''Cache-Control'', ''no-cache''),
                                        (''Connection'', ''keep-alive''), (''Access-Control-Allow-Origin'', ''*'')],
                  content = StreamBody (pipe evs new_channel)\<rparr>)
      else
        (case up_json response of
           Inl e \<Rightarrow> Inl e
         | Inr data \<Rightarrow>
             Inr (json_reply 200
                   [(''Content-Type'', ''application/json''), (''Access-Control-Allow-Origin'', ''*''),
                    (''Cache-Control'', ''no-cache, no-store, must-revalidate'')]
                   (with_performance data
                      [(''response_time_ms'', responseTime t), (''reasoning_method'', JStr reasoning)]))))"

definition stream_proxy_try ::
  "platform \<Rightarrow> clock \<Rightarrow> (string \<Rightarrow> string option) \<Rightarrow> node_request \<Rightarrow> upstream
     \<Rightarrow> (js_error + response) \<times> outbound list" where
  "stream_proxy_try P t env req up =
     (let apiKey = getenv env ''FIREWORKS_API_KEY'' in
      if apiKey = [] then
        (Inr (json_reply 500 [(''Content-Type'', ''application/json''), (''Access-Control-Allow-Origin'', ''*'')]
               (JObj [(''error'', JStr ''API key not configured''),
                      (''message'', JStr ''Please set FIREWORKS_API_KEY in your Vercel environment variables'')])), [])
      else
        (case parse_body P req of
           Inl parseError \<Rightarrow> (Inr (invalid_json parseError), [])
         | Inr body \<Rightarrow>
             (case deref body ''model'' of
                Inl e \<Rightarrow> (Inl e, [])
              | Inr requestBody \<Rightarrow>
                  (case reasoningMethod requestBody of
                     Inl e \<Rightarrow> (Inl e, [])
                   | Inr reasoning \<Rightarrow>
                       (case validatedMaxTokens P requestBody of
                          Inl e \<Rightarrow> (Inl e, [])
                        | Inr validated \<Rightarrow>
                            (let isStreaming = (jget requestBody ''stream'' = Some (JBool True));
                                 call = stream_proxy_call apiKey requestBody validated in
                             case fetch 120000 up of
                               Inl fetchError \<Rightarrow> (Inr (catch_fetchError llm_timeout_message fetchError), [call])
                             | Inr response \<Rightarrow>
                                 (case stream_proxy_respond t isStreaming reasoning response of
                                    Inl fetchError \<Rightarrow>
                                      (Inr (catch_fetchError llm_timeout_message fetchError), [call])
                                  | Inr r \<Rightarrow> (Inr r, [call]))))))))"

definition stream_proxy_handler ::
  "platform \<Rightarrow> clock \<Rightarrow> (string \<Rightarrow> string option) \<Rightarrow> node_request \<Rightarrow> upstream \<Rightarrow> result" where
  "stream_proxy_handler P t env req up =
     node_gate req options_reply (stream_proxy_try P t env req up)"

section \<open>Reading the outbound payloads\<close>

text \<open>The value of the field \<open>k\<close> in the payload of each outbound call of an invocation.\<close>

definition sent :: "string \<Rightarrow> result \<Rightarrow> json option list" where
  "sent k r = map (\<lambda>c. jget (call_body c) k) (calls r)"


text \<open>The \<open>message\<close> of a JSON reply, and whether it mentions a given text.\<close>

definition message_of :: "response \<Rightarrow> string option" where
  "message_of r =
     (case content r of
        JsonBody (JObj kvs) \<Rightarrow> (case map_of kvs ''message'' of Some (JStr m) \<Rightarrow> Some m | _ \<Rightarrow> None)
      | _ \<Rightarrow> None)"

definition mentions :: "response \<Rightarrow> string \<Rightarrow> bool" where
  "mentions r text = (case message_of r of Some m \<Rightarrow> includes_str m text | None \<Rightarrow> False)"

text \<open>What is left of a field after the fields that are \<open>undefined\<close> or \<open>null\<close> are
  stripped.\<close>

fun stripped :: "json option \<Rightarrow> json option" where
  "stripped None = None"
| "stripped (Some JNull) = None"
| "stripped (Some v) = Some v"

text \<open>A number clamped into the closed range from 1 to 8192, in the specification's words.\<close>

definition clamped :: "rat \<Rightarrow> rat" where
  "clamped r = (if r < 1 then 1 else if 8192 < r then 8192 else r)"


section \<open>Requests that reach the upstream\<close>





section \<open>Sample inputs\<close>

text \<open>
  A runtime whose \<open>JSON.parse\<close> rejects every text (the samples below hand over bodies
  that are parsed already), an environment with every secret set, and the request of the
  specification's scenario.
\<close>

definition sample_platform :: platform where
  "sample_platform =
     \<lparr>JSON_parse = (\<lambda>s. Inl (Err ''SyntaxError'' ''Unexpected token'')),
      JSON_stringify = (\<lambda>v. ''{}''),
      ToNumber_obj = (\<lambda>v. Inr NaN)\<rparr>"

definition sample_env :: "string \<Rightarrow> string option" where
  "sample_env =
     [''FIREWORKS_API_KEY'' \<mapsto> ''fw-key'',
      ''ABACUS_WEBSEARCH_TOKEN'' \<mapsto> ''ws-token'', ''ABACUS_WEBSEARCH_ID'' \<mapsto> ''ws-id'',
      ''ABACUS_DEPLOYMENT_TOKEN'' \<mapsto> ''rs-token'', ''ABACUS_DEPLOYMENT_ID'' \<mapsto> ''rs-id'']"

definition sample_clock :: clock where
  "sample_clock = \<lparr>now_thread = 5, now_start = 7, now_end = 19\<rparr>"

definition sample_chat :: "json \<Rightarrow> json" where
  "sample_chat max_tokens =
     JObj [(''model'', JStr ''x''),
           (''messages'', JArr [JObj [(''role'', JStr ''user''), (''content'', JStr ''hi'')]]),
           (''max_tokens'', max_tokens)]"

definition two_chunks :: upstream_response where
  "two_chunks =
     \<lparr>up_status = 200, up_statusText = ''OK'', up_text = Inr ''ab'',
      up_json = Inl (Err ''SyntaxError'' ''Unexpected token''),
      up_body = Some [Chunk ''a'', Chunk ''b'', End]\<rparr>"

definition completion :: upstream_response where
  "completion =
     \<lparr>up_status = 200, up_statusText = ''OK'', up_text = Inr ''{}'',
      up_json = Inr (JObj [(''id'', JStr ''c1'')]),
      up_body = Some [Chunk ''{}'', End]\<rparr>"

definition rate_limited :: "(js_error + string) \<Rightarrow> upstream_response" where
  "rate_limited text =
     \<lparr>up_status = 429, up_statusText = ''Too Many Requests'', up_text = text,
      up_json = Inl (Err ''SyntaxError'' ''Unexpected token''),
      up_body = Some []\<rparr>"

section \<open>Auxiliary facts\<close>

lemma cors_setHeaders2 [simp]:
  "map_of (setHeaders [(''Content-Type'', a), (''Access-Control-Allow-Origin'', b)]) ''Access-Control-Allow-Origin'' = Some b"
  by (simp add: setHeaders_def)

lemma cors_json_reply2: "cors (json_reply st [(''Content-Type'', a), (''Access-Control-Allow-Origin'', ''*'')] b)"
  by (simp add: cors_def json_reply_def)

lemma cors_json_reply3:
  "k \<noteq> ''Access-Control-Allow-Origin'' \<Longrightarrow>
     cors (json_reply st [(''Content-Type'', a), (''Access-Control-Allow-Origin'', ''*''), (k, v)] b)"
  by (simp add: cors_def json_reply_def setHeaders_def update_conv')

lemma handler_calls:
  assumes "c \<in> set (calls (handler P env request apiResult))"
  shows "\<exists>requestBody validated. request_method request = ''POST'' \<and> json_result request = Inr requestBody
           \<and> validatedMaxTokens P requestBody = Inr validated
           \<and> getenv env ''FIREWORKS_API_KEY'' \<noteq> []
           \<and> c = apiRequest (getenv env ''FIREWORKS_API_KEY'') requestBody validated"
  using assms unfolding handler_def handler_try_def
  by (auto simp: Let_def split: if_splits sum.splits json.splits prod.splits)



lemma jget_wire_obj: "jget (wire (JObj kvs)) k = map_option wire (map_of kvs k)"
  by (induction kvs) auto

lemma cors_catch: "cors (catch_fetchError m e)"
  by (simp add: catch_fetchError_def cors_json_reply2)

lemma cors_upstream_error: "cors (upstream_error l r d)"
  by (simp add: upstream_error_def cors_json_reply2)

lemma cors_misc: "cors options_reply" "cors thread_proxy_options" "cors method_not_allowed"
  "cors (internal_error e)" "cors (invalid_json e)" "cors missing_query"
  by (simp_all add: options_reply_def thread_proxy_options_def method_not_allowed_def internal_error_def
       invalid_json_def missing_query_def cors_json_reply2 cors_json_reply3)
     (simp_all add: cors_def setHeaders_def update_conv')

lemma cors_node_gate:
  assumes "cors pre" and "\<And>r. fst attempt = Inr r \<Longrightarrow> cors r"
  shows "cors (resp (node_gate req pre attempt))"
  using assms by (cases attempt) (auto simp: node_gate_def cors_misc split: sum.splits)

lemma cors_websearch_respond: "websearch_respond r = Inr x \<Longrightarrow> cors x"
  by (auto simp: websearch_respond_def cors_upstream_error cors_json_reply3 Let_def split: if_splits sum.splits)

lemma cors_websearch_try: "fst (websearch_try P env req up) = Inr r \<Longrightarrow> cors r"
  by (auto simp: websearch_try_def Let_def cors_json_reply2 cors_misc cors_catch
       dest: cors_websearch_respond split: if_splits sum.splits option.splits json.splits)

lemma cors_research_respond: "research_respond r = Inr x \<Longrightarrow> cors x"
  by (auto simp: research_respond_def cors_upstream_error cors_json_reply3 split: if_splits sum.splits)

lemma cors_research_try: "fst (research_try P env req up) = Inr r \<Longrightarrow> cors r"
  by (auto simp: research_try_def Let_def cors_json_reply2 cors_misc cors_catch
       dest: cors_research_respond split: if_splits sum.splits option.splits json.splits)

lemma cors_thread_proxy_respond: "thread_proxy_respond t m th r = Inr x \<Longrightarrow> cors x"
  by (auto simp: thread_proxy_respond_def cors_upstream_error cors_json_reply3 split: if_splits sum.splits)

lemma cors_thread_proxy_fetch: "cors (fst (thread_proxy_fetch P t k rb m up))"
  by (auto simp: thread_proxy_fetch_def Let_def cors_catch dest: cors_thread_proxy_respond split: sum.splits)

lemma cors_thread_proxy_try: "fst (thread_proxy_try P t env req up) = Inr r \<Longrightarrow> cors r"
  using cors_thread_proxy_fetch
  by (auto simp: thread_proxy_try_def thread_proxy_parse_def Let_def cors_json_reply2
       split: if_splits sum.splits prod.splits) (metis fst_conv)

lemma cors_stream_headers:
  "cors \<lparr>status = st, headers = setHeaders [(''Content-Type'', a), (''Cache-Control'', b),
            (''Connection'', c), (''Access-Control-Allow-Origin'', ''*'')], content = x\<rparr>"
  by (simp add: cors_def setHeaders_def update_conv')

lemma cors_stream_proxy_respond: "stream_proxy_respond t s m r = Inr x \<Longrightarrow> cors x"
  by (auto simp: stream_proxy_respond_def cors_upstream_error cors_json_reply3 cors_stream_headers Let_def
       split: if_splits sum.splits option.splits)

lemma cors_stream_proxy_try: "fst (stream_proxy_try P t env req up) = Inr r \<Longrightarrow> cors r"
  by (auto simp: stream_proxy_try_def Let_def cors_json_reply2 cors_misc cors_catch
       dest: cors_stream_proxy_respond split: if_splits sum.splits)

lemma cors_relay: "relay P r = Inr x \<Longrightarrow> cors x"
  by (auto simp: relay_def new_Response_def Let_def cors_def split: if_splits sum.splits option.splits)

lemma cors_handler_try: "fst (handler_try P env request apiResult) = Inr r \<Longrightarrow> cors r"
  by (auto simp: handler_try_def Let_def cors_json_reply2 dest: cors_relay
       split: if_splits sum.splits json.splits)

lemma cors_handler: "cors (resp (handler P env request apiResult))"
  using cors_handler_try [of P env request apiResult]
  by (cases "handler_try P env request apiResult")
     (auto simp: handler_def handler_catch_def cors_def json_reply_def setHeaders_def update_conv'
        split: sum.splits)

lemma pump_chunks:
  "pump P (map Chunk cs @ evs) w = pump P evs (w\<lparr>written := written w @ cs\<rparr>)"
  by (induction cs arbitrary: w) (simp_all add: writer_write_def)

lemma pipe_chunks:
  "pipe (map Chunk cs @ evs) w = pipe evs (w\<lparr>written := written w @ cs\<rparr>)"
  by (induction cs arbitrary: w) (simp_all add: writer_write_def)

lemma pump_closes: "closes (pump P evs w) \<le> Suc (closes w)"
  by (induction P evs w rule: pump.induct) (simp_all add: writer_write_def writer_close_def)

lemma pipe_closes: "closes (pipe evs w) \<le> Suc (closes w)"
  by (induction evs w rule: pipe.induct) (simp_all add: writer_write_def writer_close_def)


lemma map_of_wire: "map_of (map (\<lambda>kv. (fst kv, wire (snd kv))) kvs) k = map_option wire (map_of kvs k)"
  by (induction kvs) auto














lemma map_of_remove:
  "distinct (map fst kvs) \<Longrightarrow>
     map_of (remove_undefined_or_null kvs) k = (case map_of kvs k of None \<Rightarrow> None | Some v \<Rightarrow> stripped v)"
proof (induction kvs)
  case Nil
  then show ?case by (simp add: remove_undefined_or_null_def)
next
  case (Cons kv kvs)
  have tl: "map_of (remove_undefined_or_null kvs) k = (case map_of kvs k of None \<Rightarrow> None | Some v \<Rightarrow> stripped v)"
    using Cons by simp
  have fresh: "map_of kvs (fst kv) = None"
    using Cons.prems by (simp add: map_of_eq_None_iff)
  show ?case
  proof (cases "k = fst kv")
    case True
    with tl fresh show ?thesis
      by (cases "snd kv"; cases "the (snd kv)") (auto simp: remove_undefined_or_null_def)
  next
    case False
    with tl show ?thesis
      by (cases "snd kv"; cases "the (snd kv)") (auto simp: remove_undefined_or_null_def)
  qed
qed

lemma apiRequest_field:
  "jget (call_body (apiRequest key requestBody validated)) k =
     map_option wire
       (if k = ''model'' \<or> k = ''messages'' \<or> k = ''temperature'' \<or> k = ''top_p''
          then stripped (jget requestBody k)
        else if k = ''max_tokens'' then Some (JNum validated)
        else if k = ''stream'' then Some (JBool True)
        else None)"
  by (simp add: apiRequest_def cleanedParams_def map_of_wire map_of_remove)


lemma wire_Fin [simp]: "wire (JNum (Fin r)) = JNum (Fin r)"
  by simp




lemmas eval_values =
  getenv_def read_prop_def deref_def or_else_def Math_max_def Math_min_def validatedMaxTokens_def
  originalMaxTokens_def json_reply_def setHeaders_def ok_def fetch_def parse_body_def sent_def clamped_def
  reasoningMethod_def with_performance_def responseTime_def catch_fetchError_def upstream_error_def
  internal_error_def invalid_json_def missing_query_def method_not_allowed_def options_reply_def
  thread_proxy_options_def node_gate_def new_channel_def writer_write_def writer_close_def
  done_chunk_def error_chunk_def new_Response_def

lemmas eval_samples =
  sample_env_def sample_platform_def sample_clock_def sample_chat_def two_chunks_def completion_def
  rate_limited_def

lemmas eval_edge =
  handler_def handler_try_def handler_catch_def relay_def apiRequest_def cleanedParams_def
  remove_undefined_or_null_def


lemmas eval_thread_proxy =
  thread_proxy_handler_def thread_proxy_try_def thread_proxy_parse_def thread_proxy_fetch_def
  thread_proxy_respond_def thread_proxy_call_def modifiedRequestBody_def threadId_def
  llm_timeout_message_def

lemmas eval_websearch =
  websearch_handler_def websearch_try_def websearch_respond_def websearch_payload_def
  websearch_timeout_message_def






































lemma map_body_one:
  "calls r = [c] \<Longrightarrow> map call_body (calls r) = [call_body c]"
  by simp

text \<open>The method gate answers before any secret is read, and without a call.\<close>

lemma method_gate:
  "request_method request \<noteq> ''POST'' \<Longrightarrow>
     calls (handler P env request apiResult) = []
     \<and> status (resp (handler P env request apiResult))
         = (if request_method request = ''OPTIONS'' then 204 else 405)"
  "req_method req \<noteq> ''POST'' \<Longrightarrow>
     calls (node_gate req preflight attempt) = []
     \<and> resp (node_gate req preflight attempt)
         = (if req_method req = ''OPTIONS'' then preflight else method_not_allowed)"
  "status options_reply = 204" "status thread_proxy_options = 204" "status method_not_allowed = 405"
  by (simp_all add: handler_def node_gate_def json_reply_def options_reply_def thread_proxy_options_def
        method_not_allowed_def)

section \<open>The claims\<close>

text \<open>
  Claim C9. On every response path of every endpoint (preflight, method not allowed,
  configuration error, parse error, validation error, upstream error, timeout, transport
  failure, success buffered or streamed) the response carries the header
  \<open>Access-Control-Allow-Origin: *\<close>. The statement ranges over every request, environment
  and upstream behaviour of the five handlers.
\<close>

theorem cors_everywhere:
  "cors (resp (handler P env request apiResult))
   \<and> cors (resp (stream_proxy_handler P t env req up))
   \<and> cors (resp (thread_proxy_handler P t env req up))
   \<and> cors (resp (websearch_handler P env req up))
   \<and> cors (resp (research_handler P env req up))"
  by (simp add: cors_handler stream_proxy_handler_def thread_proxy_handler_def websearch_handler_def
        research_handler_def cors_node_gate cors_misc cors_stream_proxy_try cors_thread_proxy_try
        cors_websearch_try cors_research_try)

text \<open>
  Claim C1 (as amended). The dedicated streaming endpoint (\<open>pump\<close>) forwards every chunk
  of the upstream body unmodified and in order; when the upstream body ends it writes
  \<open>data: [DONE]\<close> and closes the channel, when a read fails it writes one error chunk and
  then \<open>data: [DONE]\<close> and closes, and it never closes more than once. The stream mode of
  the chat proxy (\<open>pipe\<close>) forwards the chunks in the same way and ends the response once
  when the upstream body ends, but adds no sentinel; when the upstream body fails it writes
  nothing and leaves the response open.
\<close>

theorem relay_streams:
  "pump P (map Chunk cs @ End # rest) new_channel = \<lparr>written = cs @ [done_chunk], closes = 1\<rparr>
   \<and> pump P (map Chunk cs @ Fail error # rest) new_channel
       = \<lparr>written = cs @ [error_chunk P error, done_chunk], closes = 1\<rparr>
   \<and> pump P (map Chunk cs) new_channel = \<lparr>written = cs, closes = 0\<rparr>
   \<and> closes (pump P evs new_channel) \<le> 1
   \<and> pipe (map Chunk cs @ End # rest) new_channel = \<lparr>written = cs, closes = 1\<rparr>
   \<and> pipe (map Chunk cs @ Fail error # rest) new_channel = \<lparr>written = cs, closes = 0\<rparr>
   \<and> pipe (map Chunk cs) new_channel = \<lparr>written = cs, closes = 0\<rparr>
   \<and> closes (pipe evs new_channel) \<le> 1"
proof -
  have a: "pump P (map Chunk cs) new_channel = \<lparr>written = cs, closes = 0\<rparr>"
    using pump_chunks [of P cs "[]" new_channel] by (simp add: new_channel_def)
  have b: "pipe (map Chunk cs) new_channel = \<lparr>written = cs, closes = 0\<rparr>"
    using pipe_chunks [of cs "[]" new_channel] by (simp add: new_channel_def)
  have c: "closes (pump P evs new_channel) \<le> 1"
    using pump_closes [of P evs new_channel] by (simp add: new_channel_def)
  have d: "closes (pipe evs new_channel) \<le> 1"
    using pipe_closes [of evs new_channel] by (simp add: new_channel_def)
  show ?thesis
    using a b c d
    by (simp add: pump_chunks pipe_chunks new_channel_def writer_write_def writer_close_def)
qed

theorem relay_streams_witness:
  "pump sample_platform [Chunk ''a'', Chunk ''b'', End] new_channel
     = \<lparr>written = [''a'', ''b'', done_chunk], closes = 1\<rparr>
   \<and> pump sample_platform [Chunk ''a'', Fail (Err ''TypeError'' ''terminated''), Chunk ''b''] new_channel
     = \<lparr>written = [''a'', ''data: {}'' @ [CHR 0x0A, CHR 0x0A], done_chunk], closes = 1\<rparr>
   \<and> pipe [Chunk ''a'', Chunk ''b'', End] new_channel = \<lparr>written = [''a'', ''b''], closes = 1\<rparr>"
  using relay_streams [of sample_platform "[''a'', ''b'']" "[]" "Err ''TypeError'' ''terminated''" "[]"]
        relay_streams [of sample_platform "[''a'']" "[]" "Err ''TypeError'' ''terminated''" "[Chunk ''b'']"]
  by (simp add: error_chunk_def sample_platform_def new_channel_def writer_write_def writer_close_def)

text \<open>
  The claim as stated asks every streamed relay for the sentinel. The chat proxy in stream
  mode, on an upstream body of two chunks, delivers the two chunks and nothing else.
\<close>

theorem relay_sentinel_counterexample:
  "content (resp (stream_proxy_handler sample_platform sample_clock sample_env
       \<lparr>req_method = ''POST'', req_body = Some (JObj [(''model'', JStr ''x''), (''stream'', JBool True)])\<rparr>
       \<lparr>latency = 10, settles = Inr two_chunks\<rparr>))
     = StreamBody \<lparr>written = [''a'', ''b''], closes = 1\<rparr>
   \<and> done_chunk \<notin> set [''a'', ''b'']"
  by (simp add: stream_proxy_handler_def node_gate_def stream_proxy_try_def getenv_def sample_env_def
        parse_body_def deref_def reasoningMethod_def validatedMaxTokens_def originalMaxTokens_def
        or_else_def Math_max_def Math_min_def fetch_def stream_proxy_respond_def ok_def two_chunks_def
        new_channel_def writer_write_def writer_close_def done_chunk_def)

text \<open>
  Claim C8. For every request to the dedicated streaming endpoint, the payload of every
  outbound call has \<open>stream: true\<close>, whatever the inbound \<open>stream\<close> is (true, false or
  absent).
\<close>

theorem streaming_endpoint_forces_stream:
  "set (sent ''stream'' (handler P env request apiResult)) \<subseteq> {Some (JBool True)}"
proof
  fix x
  assume "x \<in> set (sent ''stream'' (handler P env request apiResult))"
  then obtain c where c: "c \<in> set (calls (handler P env request apiResult))"
    and x: "x = jget (call_body c) ''stream''"
    by (auto simp: sent_def)
  from handler_calls [OF c] obtain requestBody validated
    where "c = apiRequest (getenv env ''FIREWORKS_API_KEY'') requestBody validated"
    by blast
  with x show "x \<in> {Some (JBool True)}"
    by (simp add: apiRequest_field)
qed

text \<open>
  An inbound request with \<open>stream: false\<close> reaches the upstream with \<open>stream: true\<close>.
\<close>

theorem streaming_endpoint_forces_stream_witness:
  "set (sent ''stream'' (handler sample_platform sample_env
          \<lparr>request_method = ''POST'',
             json_result = Inr (JObj [(''model'', JStr ''x''), (''stream'', JBool False)])\<rparr>
          (Inr two_chunks))) \<subseteq> {Some (JBool True)}
   \<and> length (calls (handler sample_platform sample_env
          \<lparr>request_method = ''POST'',
             json_result = Inr (JObj [(''model'', JStr ''x''), (''stream'', JBool False)])\<rparr>
          (Inr two_chunks))) = 1"
  using streaming_endpoint_forces_stream [of sample_platform sample_env
          "\<lparr>request_method = ''POST'',
             json_result = Inr (JObj [(''model'', JStr ''x''), (''stream'', JBool False)])\<rparr>"
          "Inr two_chunks"]
  by (simp add: handler_def handler_try_def getenv_def sample_env_def read_prop_def
        validatedMaxTokens_def originalMaxTokens_def or_else_def Math_max_def Math_min_def
        relay_def ok_def two_chunks_def)







text \<open>
  Claim C6 (as amended). When a required secret is absent from the environment (unset or
  empty) no outbound call is made, and a POST request is answered with status 500. The
  message names the missing configuration key on the streaming endpoint and on the chat
  proxy with optional streaming, and names both keys of the pair on the two agent endpoints;
  the chat proxy with thread ids answers \<open>API key not configured on server\<close> without a
  message.
\<close>

theorem missing_secret:
  "(getenv env ''FIREWORKS_API_KEY'' = [] \<longrightarrow>
      calls (handler P env request apiResult) = []
      \<and> calls (stream_proxy_handler P t env req up) = []
      \<and> calls (thread_proxy_handler P t env req up) = []
      \<and> (request_method request = ''POST'' \<longrightarrow>
            status (resp (handler P env request apiResult)) = 500
            \<and> mentions (resp (handler P env request apiResult)) ''FIREWORKS_API_KEY'')
      \<and> (req_method req = ''POST'' \<longrightarrow>
            status (resp (stream_proxy_handler P t env req up)) = 500
            \<and> mentions (resp (stream_proxy_handler P t env req up)) ''FIREWORKS_API_KEY''
            \<and> status (resp (thread_proxy_handler P t env req up)) = 500
            \<and> content (resp (thread_proxy_handler P t env req up))
                = JsonBody (JObj [(''error'', JStr ''API key not configured on server'')])))
   \<and> (getenv env ''ABACUS_WEBSEARCH_TOKEN'' = [] \<or> getenv env ''ABACUS_WEBSEARCH_ID'' = [] \<longrightarrow>
      calls (websearch_handler P env req up) = []
      \<and> (req_method req = ''POST'' \<longrightarrow>
            status (resp (websearch_handler P env req up)) = 500
            \<and> mentions (resp (websearch_handler P env req up)) ''ABACUS_WEBSEARCH_TOKEN''
            \<and> mentions (resp (websearch_handler P env req up)) ''ABACUS_WEBSEARCH_ID''))
   \<and> (getenv env ''ABACUS_DEPLOYMENT_TOKEN'' = [] \<or> getenv env ''ABACUS_DEPLOYMENT_ID'' = [] \<longrightarrow>
      calls (research_handler P env req up) = []
      \<and> (req_method req = ''POST'' \<longrightarrow>
            status (resp (research_handler P env req up)) = 500
            \<and> mentions (resp (research_handler P env req up)) ''ABACUS_DEPLOYMENT_TOKEN''
            \<and> mentions (resp (research_handler P env req up)) ''ABACUS_DEPLOYMENT_ID''))"
proof (intro conjI impI)
  assume k: "getenv env ''FIREWORKS_API_KEY'' = []"
  show "calls (handler P env request apiResult) = []"
    using k by (simp add: handler_def handler_try_def)
  show "calls (stream_proxy_handler P t env req up) = []"
    using k by (simp add: stream_proxy_handler_def stream_proxy_try_def node_gate_def)
  show "calls (thread_proxy_handler P t env req up) = []"
    using k by (simp add: thread_proxy_handler_def thread_proxy_try_def node_gate_def)
  {
    assume "request_method request = ''POST''"
    then show "status (resp (handler P env request apiResult)) = 500"
      and "mentions (resp (handler P env request apiResult)) ''FIREWORKS_API_KEY''"
      using k by (simp_all add: handler_def handler_try_def json_reply_def mentions_def message_of_def)
  }
  {
    assume m: "req_method req = ''POST''"
    show "status (resp (stream_proxy_handler P t env req up)) = 500"
      and "mentions (resp (stream_proxy_handler P t env req up)) ''FIREWORKS_API_KEY''"
      using k m
      by (simp_all add: stream_proxy_handler_def stream_proxy_try_def node_gate_def json_reply_def
            mentions_def message_of_def)
    show "status (resp (thread_proxy_handler P t env req up)) = 500"
      and "content (resp (thread_proxy_handler P t env req up))
                = JsonBody (JObj [(''error'', JStr ''API key not configured on server'')])"
      using k m
      by (simp_all add: thread_proxy_handler_def thread_proxy_try_def node_gate_def json_reply_def)
  }
next
  assume k: "getenv env ''ABACUS_WEBSEARCH_TOKEN'' = [] \<or> getenv env ''ABACUS_WEBSEARCH_ID'' = []"
  then have e: "websearch_try P env req up =
      (Inr (json_reply 500 [(''Content-Type'', ''application/json''), (''Access-Control-Allow-Origin'', ''*'')]
               (JObj [(''error'', JStr ''Abacus.AI Web Search credentials not configured''),
                      (''message'', JStr ''Please set ABACUS_WEBSEARCH_TOKEN and ABACUS_WEBSEARCH_ID in your Vercel environment variables'')])), [])"
    by (auto simp: websearch_try_def)
  show "calls (websearch_handler P env req up) = []"
    by (simp add: websearch_handler_def node_gate_def e)
  {
    assume m: "req_method req = ''POST''"
    show "status (resp (websearch_handler P env req up)) = 500"
      and "mentions (resp (websearch_handler P env req up)) ''ABACUS_WEBSEARCH_TOKEN''"
      and "mentions (resp (websearch_handler P env req up)) ''ABACUS_WEBSEARCH_ID''"
      using m by (simp_all add: websearch_handler_def node_gate_def e json_reply_def mentions_def message_of_def)
  }
next
  assume k: "getenv env ''ABACUS_DEPLOYMENT_TOKEN'' = [] \<or> getenv env ''ABACUS_DEPLOYMENT_ID'' = []"
  then have e: "research_try P env req up =
      (Inr (json_reply 500 [(''Content-Type'', ''application/json''), (''Access-Control-Allow-Origin'', ''*'')]
               (JObj [(''error'', JStr ''Abacus.AI credentials not configured''),
                      (''message'', JStr ''Please set ABACUS_DEPLOYMENT_TOKEN and ABACUS_DEPLOYMENT_ID in your Vercel environment variables'')])), [])"
    by (auto simp: research_try_def)
  show "calls (research_handler P env req up) = []"
    by (simp add: research_handler_def node_gate_def e)
  {
    assume m: "req_method req = ''POST''"
    show "status (resp (research_handler P env req up)) = 500"
      and "mentions (resp (research_handler P env req up)) ''ABACUS_DEPLOYMENT_TOKEN''"
      and "mentions (resp (research_handler P env req up)) ''ABACUS_DEPLOYMENT_ID''"
      using m by (simp_all add: research_handler_def node_gate_def e json_reply_def mentions_def message_of_def)
  }
qed

text \<open>
  The web search agent with its token set and its deployment id missing.
\<close>

theorem missing_secret_witness:
  "calls (websearch_handler sample_platform [''ABACUS_WEBSEARCH_TOKEN'' \<mapsto> ''ws-token'']
       \<lparr>req_method = ''POST'', req_body = Some (JObj [(''query'', JStr ''q'')])\<rparr>
       \<lparr>latency = 10, settles = Inr completion\<rparr>) = []
   \<and> status (resp (websearch_handler sample_platform [''ABACUS_WEBSEARCH_TOKEN'' \<mapsto> ''ws-token'']
       \<lparr>req_method = ''POST'', req_body = Some (JObj [(''query'', JStr ''q'')])\<rparr>
       \<lparr>latency = 10, settles = Inr completion\<rparr>)) = 500
   \<and> mentions (resp (websearch_handler sample_platform [''ABACUS_WEBSEARCH_TOKEN'' \<mapsto> ''ws-token'']
       \<lparr>req_method = ''POST'', req_body = Some (JObj [(''query'', JStr ''q'')])\<rparr>
       \<lparr>latency = 10, settles = Inr completion\<rparr>)) ''ABACUS_WEBSEARCH_ID''"
  using missing_secret [where P = sample_platform and env = "[''ABACUS_WEBSEARCH_TOKEN'' \<mapsto> ''ws-token'']"
      and req = "\<lparr>req_method = ''POST'', req_body = Some (JObj [(''query'', JStr ''q'')])\<rparr>"
      and up = "\<lparr>latency = 10, settles = Inr completion\<rparr>", THEN conjunct2, THEN conjunct1]
  by (simp add: getenv_def)

text \<open>
  The claim as stated promises, for every request, status 500 and a message that names the
  key. The chat proxy with thread ids does not name the key, and a request with another
  method is answered by the method gate before the secret is read.
\<close>

theorem missing_secret_counterexample:
  "status (resp (thread_proxy_handler sample_platform sample_clock Map.empty
       \<lparr>req_method = ''POST'', req_body = Some (sample_chat (JNum (Fin 100)))\<rparr>
       \<lparr>latency = 10, settles = Inr completion\<rparr>)) = 500
   \<and> content (resp (thread_proxy_handler sample_platform sample_clock Map.empty
       \<lparr>req_method = ''POST'', req_body = Some (sample_chat (JNum (Fin 100)))\<rparr>
       \<lparr>latency = 10, settles = Inr completion\<rparr>))
       = JsonBody (JObj [(''error'', JStr ''API key not configured on server'')])
   \<and> \<not> includes_str ''API key not configured on server'' ''FIREWORKS_API_KEY''
   \<and> status (resp (handler sample_platform Map.empty
       \<lparr>request_method = ''GET'', json_result = Inr (sample_chat (JNum (Fin 100)))\<rparr>
       (Inr completion))) = 405"
  by (simp add: eval_values eval_samples eval_thread_proxy eval_edge)












end
